theory Spec2Isabelle
  imports Main
begin

section \<open>JavaScript strings\<close>

text \<open>
  A JavaScript string is a sequence of UTF-16 code units. It is modelled by \<open>string\<close>
  (a list of \<open>char\<close>), one \<open>char\<close> per code unit, which covers the code units below 256.
  A value that may be \<open>undefined\<close> is an \<open>option\<close>, with \<open>None\<close> for \<open>undefined\<close>.
\<close>

text \<open>\<open>s.split(d)\<close> for a separator of one code unit: never the empty array.\<close>

fun str_split :: "char \<Rightarrow> string \<Rightarrow> string list" where
  "str_split d [] = [] # []"
| "str_split d (c # cs) =
     (if c = d then [] # str_split d cs
      else (case str_split d cs of
              [] \<Rightarrow> [c] # []
            | seg # segs \<Rightarrow> (c # seg) # segs))"

text \<open>\<open>xs.join(sep)\<close>; an \<open>undefined\<close> element is joined as the empty string.\<close>

fun str_join :: "string \<Rightarrow> string option list \<Rightarrow> string" where
  "str_join sep [] = []"
| "str_join sep [x] = (case x of None \<Rightarrow> [] | Some v \<Rightarrow> v)"
| "str_join sep (x # y # ys) = (case x of None \<Rightarrow> [] | Some v \<Rightarrow> v) @ sep @ str_join sep (y # ys)"

fun startsWith :: "string \<Rightarrow> string \<Rightarrow> bool" where
  "startsWith s [] = True"
| "startsWith [] (p # ps) = False"
| "startsWith (c # cs) (p # ps) = (c = p \<and> startsWith cs ps)"

fun str_includes :: "string \<Rightarrow> string \<Rightarrow> bool" where
  "str_includes [] sub = (sub = [])"
| "str_includes (c # cs) sub = (startsWith (c # cs) sub \<or> str_includes cs sub)"

text \<open>
  \<open>s.replace(pat, rep)\<close> with a string pattern: the first occurrence only. The replacement
  strings of this program hold no \<open>$\<close>, so no replacement pattern is expanded.
\<close>

fun str_replace :: "string \<Rightarrow> string \<Rightarrow> string \<Rightarrow> string" where
  "str_replace [] pat rep = (if pat = [] then rep else [])"
| "str_replace (c # cs) pat rep =
     (if startsWith (c # cs) pat then rep @ drop (length pat) (c # cs)
      else c # str_replace cs pat rep)"

text \<open>Truthiness of a value that is a string or \<open>undefined\<close>: the empty string is falsy.\<close>

fun truthy :: "string option \<Rightarrow> bool" where
  "truthy None = False"
| "truthy (Some s) = (s \<noteq> [])"

text \<open>\<open>a || b\<close> on such values.\<close>

definition or_else :: "string option \<Rightarrow> string option \<Rightarrow> string option" where
  "or_else a b = (if truthy a then a else b)"

subsection \<open>The regular expression of \<open>replaceANSITags\<close>\<close>

text \<open>
  A backtracking matcher maps the rest of the input to the rests that remain after each way
  of matching, in the order in which the engine tries them; the head of the list is the
  match the engine takes.
\<close>

type_synonym matcher = "string \<Rightarrow> string list"

definition m_class :: "(char \<Rightarrow> bool) \<Rightarrow> matcher" where
  "m_class p s = (case s of [] \<Rightarrow> [] | c # cs \<Rightarrow> (if p c then [cs] else []))"

definition m_seq :: "matcher \<Rightarrow> matcher \<Rightarrow> matcher" where
  "m_seq a b s = concat (map b (a s))"

text \<open>\<open>(?:a)?\<close>, greedy: with \<open>a\<close> first, then without.\<close>

definition m_opt :: "matcher \<Rightarrow> matcher" where
  "m_opt a s = a s @ [s]"

text \<open>\<open>a{lo,hi}\<close>, greedy, written \<open>m_rep a lo (hi - lo)\<close>: \<open>lo\<close> times, then up to \<open>extra\<close> more.\<close>

fun m_rep :: "matcher \<Rightarrow> nat \<Rightarrow> nat \<Rightarrow> matcher" where
  "m_rep a 0 0 s = [s]"
| "m_rep a 0 (Suc extra) s = concat (map (m_rep a 0 extra) (a s)) @ [s]"
| "m_rep a (Suc lo) extra s = concat (map (m_rep a lo extra) (a s))"

text \<open>\<open>a*\<close>, greedy; an iteration that consumes nothing fails, as in ECMAScript.\<close>

function m_star :: "matcher \<Rightarrow> matcher" where
  "m_star a s =
     concat (map (\<lambda>r. if length r < length s then m_star a r else []) (a s)) @ [s]"
  by pat_completeness auto
termination
  by (relation "measure (\<lambda>(a, s). length s)") auto

definition code_unit :: "char \<Rightarrow> nat" where
  "code_unit c = of_char c"

definition in_range :: "char \<Rightarrow> char \<Rightarrow> char \<Rightarrow> bool" where
  "in_range lo hi c = (code_unit lo \<le> code_unit c \<and> code_unit c \<le> code_unit hi)"

text \<open>\<open>[\u001b\u009b]\<close>\<close>

definition ansi_escape :: "char \<Rightarrow> bool" where
  "ansi_escape c = (code_unit c = 0x1b \<or> code_unit c = 0x9b)"

text \<open>The class of the characters \<open>[ ( ) # ; ?\<close>\<close>

definition ansi_intro :: "char \<Rightarrow> bool" where
  "ansi_intro c = (c \<in> set ''[()#;?'')"

text \<open>\<open>[0-9]\<close>\<close>

definition ansi_digit :: "char \<Rightarrow> bool" where
  "ansi_digit c = in_range (CHR ''0'') (CHR ''9'') c"

text \<open>\<open>[0-9A-ORZcf-nqry=><]\<close>\<close>

definition ansi_final :: "char \<Rightarrow> bool" where
  "ansi_final c =
     (in_range (CHR ''0'') (CHR ''9'') c \<or> in_range (CHR ''A'') (CHR ''O'') c
      \<or> in_range (CHR ''f'') (CHR ''n'') c \<or> c \<in> set ''RZcqry=><'')"

text \<open>
  The expression, in order: \<open>[\u001b\u009b]\<close>, the class above under a star,
  \<open>(?:[0-9]{1,4}(?:;[0-9]{0,4})*)?\<close> and \<open>[0-9A-ORZcf-nqry=><]\<close>.
\<close>

definition ansi_regex :: matcher where
  "ansi_regex =
     m_seq (m_class ansi_escape)
       (m_seq (m_star (m_class ansi_intro))
          (m_seq
             (m_opt
                (m_seq (m_rep (m_class ansi_digit) 1 3)
                   (m_star (m_seq (m_class (\<lambda>c. c = CHR '';'')) (m_rep (m_class ansi_digit) 0 4)))))
             (m_class ansi_final)))"

text \<open>
  \<open>entry.replace(re, '')\<close> with the \<open>g\<close> flag: every match, leftmost first, is dropped.
  Where the expression matches nothing at a position, the code unit there is kept.
\<close>

function replace_all :: "matcher \<Rightarrow> string \<Rightarrow> string" where
  "replace_all re [] = []"
| "replace_all re (c # cs) =
     (case re (c # cs) of
        [] \<Rightarrow> c # replace_all re cs
      | r # _ \<Rightarrow> (if length r < length (c # cs) then replace_all re r
                  else c # replace_all re cs))"
  by pat_completeness auto
termination
  by (relation "measure (\<lambda>(re, s). length s)") auto

definition replaceANSITags :: "string \<Rightarrow> string" where
  "replaceANSITags entry = replace_all ansi_regex entry"

section \<open>The report sink\<close>

text \<open>
  The entities of the report are objects of the library allure-js-commons, which is outside
  the repository. They are modelled by the fields the reporter reads and writes.
  \<open>AllureTest\<close> extends \<open>ExecutableItemWrapper\<close>, as in the library.
\<close>

datatype Status = FAILED | BROKEN | PASSED | SKIPPED

datatype Stage = SCHEDULED | RUNNING | FINISHED | PENDING | INTERRUPTED

text \<open>
  The name given to \<open>addLabel\<close>: a member of the library's enumeration \<open>LabelName\<close>, or
  a string of the caller.
\<close>

datatype LabelName = TAG | THREAD | PARENT_SUITE | PACKAGE | SUITE | SUB_SUITE | Named string

datatype LinkType = ISSUE | TMS

record StatusDetails =
  message :: "string option"
  trace :: "string option"

record Label =
  label_name :: LabelName
  label_value :: string

record Link =
  link_url :: string
  link_name :: string
  link_type :: LinkType

record ExecutableItemWrapper =
  status :: "Status option"
  statusDetails :: StatusDetails
  stage :: Stage

record AllureTest = ExecutableItemWrapper +
  info_name :: string
  fullName :: "string option"
  historyId :: string
  description :: "string option"
  result_labels :: "Label list"
  result_links :: "Link list"

record AllureStep =
  step_name :: string

record AllureGroup =
  group_name :: string

text \<open>
  \<open>suite.addBefore()\<close> and \<open>suite.addAfter()\<close> hand out a fresh executable, which the library
  creates broken and pending, with empty details.
\<close>

definition fixtureResult :: ExecutableItemWrapper where
  "fixtureResult =
     \<lparr>status = Some BROKEN, statusDetails = \<lparr>message = None, trace = None\<rparr>, stage = PENDING\<rparr>"

text \<open>
  \<open>suite.startTest(name)\<close> hands out a fresh test of that name: no status, pending, no
  labels and no links. The library draws its first \<open>historyId\<close> at random; \<open>uuid\<close> is
  that draw.
\<close>

definition startTest :: "string \<Rightarrow> string \<Rightarrow> AllureTest" where
  "startTest uuid nm =
     \<lparr>status = None, statusDetails = \<lparr>message = None, trace = None\<rparr>, stage = PENDING,
      info_name = nm, fullName = None, historyId = uuid, description = None,
      result_labels = [], result_links = []\<rparr>"

definition startGroup :: "string \<Rightarrow> AllureGroup" where
  "startGroup nm = \<lparr>group_name = nm\<rparr>"

definition addLabel :: "LabelName \<Rightarrow> string \<Rightarrow> AllureTest \<Rightarrow> AllureTest" where
  "addLabel n v t = t\<lparr>result_labels := result_labels t @ [\<lparr>label_name = n, label_value = v\<rparr>]\<rparr>"

definition addLink :: "string \<Rightarrow> string \<Rightarrow> LinkType \<Rightarrow> AllureTest \<Rightarrow> AllureTest" where
  "addLink url nm ty t =
     t\<lparr>result_links := result_links t @ [\<lparr>link_url = url, link_name = nm, link_type = ty\<rparr>]\<rparr>"

text \<open>
  The calls that close an entity in the sink, each with the entity as it is at the call.
  The reporter's state keeps them in call order.
\<close>

datatype SinkCall = EndStep AllureStep | EndTest AllureTest | EndGroup AllureGroup

section \<open>Values of the runner\<close>

text \<open>
  \<open>error.matcherResult.message\<close>: a function that renders the message, the message
  itself, or absent.
\<close>

datatype MatcherMessage = MessageFunction string | MessageString string | MessageUndefined

record ErrorObject =
  error_name :: "string option"
  error_stack :: "string option"
  error_message :: "string option"
  matcherResult :: "MatcherMessage option"

text \<open>
  What the runner reports as an error: nothing, a thrown string, an object with the fields
  above (each a string or \<open>undefined\<close>), or an array of such values.
\<close>

datatype JsValue = Undefined | Str string | Obj ErrorObject | Arr "JsValue list"

text \<open>
  The result of \<open>extractCodeDetails\<close> on the source text of a test function. The
  documentation comment is parsed by jest-docblock and the code is formatted by prettier,
  both outside the repository, so the result is taken as part of the test entry. A pragma
  value is a string, a \<open>String\<close> object or an array of strings.
\<close>

datatype PragmaValue = PString string | PStringObject string | PArray "string list"

record CodeDetails =
  comments :: string
  pragmas :: "(string \<times> PragmaValue) list"
  code :: string

record TestEntry =
  test_name :: string
  fn :: "CodeDetails option"
  mode :: "string option"

text \<open>\<open>state.parentProcess?.env?.JEST_WORKER_ID\<close>\<close>

record State =
  JEST_WORKER_ID :: "string option"

text \<open>
  What the reporter takes from its platform: the hexadecimal MD5 digest of a string (from
  \<open>crypto\<close>) and \<open>os.type()\<close>.
\<close>

record Platform =
  md5_hex :: "string \<Rightarrow> string"
  os_type :: string

text \<open>An accumulated label of \<open>jest-allure-interface\<close>, with its optional ordinal index.\<close>

record Labels =
  labels_name :: string
  labels_value :: string
  labels_index :: "nat option"

section \<open>The reporter\<close>

text \<open>
  The class \<open>AllureReporter\<close> of \<open>allure-reporter.ts\<close>: its stacks, its current executable
  and its lifecycle operations. The categories, the environment information and the
  attachments, which the reporter only hands to the sink, are left out, and so is the
  adapter of \<open>allure-base-environment.ts\<close>, which maps each event of the runner to one or two
  of the operations.
\<close>

text \<open>
  The guards of the reporter throw an \<open>Error\<close> with a message, which the specification
  calls \<open>InvalidState\<close>. \<open>TypeError\<close> is what the JavaScript runtime throws when a property
  of \<open>undefined\<close> is read or a value that is no function is called.
\<close>

datatype error = InvalidState string | TypeError

type_synonym ref = nat

text \<open>
  The arrays are in JavaScript order: \<open>push\<close> appends, the current entity is the last.
  \<open>labels\<close> is an array of references to label objects, held in \<open>labelObjects\<close>;
  \<open>closed\<close> lists the closing calls made to the sink so far.
\<close>

record AllureReporter =
  currentExecutable :: "ExecutableItemWrapper option"
  suites :: "AllureGroup list"
  steps :: "AllureStep list"
  tests :: "AllureTest list"
  jiraUrl :: string
  tmsUrl :: string
  testNames :: "string list"
  addCodeInReport :: bool
  labels :: "ref list"
  labelObjects :: "ref \<Rightarrow> Labels"
  closed :: "SinkCall list"

text \<open>
  An operation that throws returns \<open>Inl\<close> with the error and the state at the throw; one
  that returns normally returns \<open>Inr\<close> with the new state.
\<close>

type_synonym result = "(error \<times> AllureReporter) + AllureReporter"

definition currentSuite :: "AllureReporter \<Rightarrow> AllureGroup option" where
  "currentSuite r = (if length (suites r) > 0 then Some (suites r ! (length (suites r) - 1)) else None)"

definition currentStep :: "AllureReporter \<Rightarrow> AllureStep option" where
  "currentStep r = (if length (steps r) > 0 then Some (steps r ! (length (steps r) - 1)) else None)"

definition currentTest :: "AllureReporter \<Rightarrow> AllureTest option" where
  "currentTest r = (if length (tests r) > 0 then Some (tests r ! (length (tests r) - 1)) else None)"

text \<open>An assignment to a field of \<open>this.currentTest\<close>: the last test of the stack is updated.\<close>

definition update_currentTest :: "(AllureTest \<Rightarrow> AllureTest) \<Rightarrow> AllureReporter \<Rightarrow> AllureReporter" where
  "update_currentTest f r =
     r\<lparr>tests := (tests r)[length (tests r) - 1 := f (tests r ! (length (tests r) - 1))]\<rparr>"

definition pushStep :: "AllureStep \<Rightarrow> AllureReporter \<Rightarrow> AllureReporter" where
  "pushStep step r = r\<lparr>steps := steps r @ [step]\<rparr>"

definition popStep :: "AllureReporter \<Rightarrow> AllureReporter" where
  "popStep r = r\<lparr>steps := butlast (steps r)\<rparr>"

definition pushTest :: "AllureTest \<Rightarrow> AllureReporter \<Rightarrow> AllureReporter" where
  "pushTest test r = r\<lparr>tests := tests r @ [test]\<rparr>"


definition pushSuite :: "AllureGroup \<Rightarrow> AllureReporter \<Rightarrow> AllureReporter" where
  "pushSuite suite r = r\<lparr>suites := suites r @ [suite]\<rparr>"

definition popSuite :: "AllureReporter \<Rightarrow> AllureReporter" where
  "popSuite r = r\<lparr>suites := butlast (suites r)\<rparr>"

subsection \<open>The error classifier\<close>

text \<open>\<open>_.flattenDeep\<close>\<close>

fun flattenDeep :: "JsValue \<Rightarrow> JsValue list" where
  "flattenDeep (Arr xs) = concat (map flattenDeep xs)"
| "flattenDeep v = [v]"

fun isArray :: "JsValue \<Rightarrow> bool" where
  "isArray (Arr xs) = True"
| "isArray v = False"

text \<open>Reading a property of a value that is not \<open>undefined\<close>; only an object has these.\<close>

fun prop_name :: "JsValue \<Rightarrow> string option" where
  "prop_name (Obj e) = error_name e"
| "prop_name v = None"

fun prop_stack :: "JsValue \<Rightarrow> string option" where
  "prop_stack (Obj e) = error_stack e"
| "prop_stack v = None"

fun prop_message :: "JsValue \<Rightarrow> string option" where
  "prop_message (Obj e) = error_message e"
| "prop_message v = None"

fun prop_matcherResult :: "JsValue \<Rightarrow> MatcherMessage option" where
  "prop_matcherResult (Obj e) = matcherResult e"
| "prop_matcherResult v = None"

text \<open>A string or \<open>undefined\<close> where a string is expected, as in \<open>includes\<close> and \<open>replace\<close>.\<close>

fun to_string :: "string option \<Rightarrow> string" where
  "to_string None = ''undefined''"
| "to_string (Some s) = s"

fun nth_opt :: "'a list \<Rightarrow> nat \<Rightarrow> 'a option" where
  "nth_opt [] i = None"
| "nth_opt (x # xs) 0 = Some x"
| "nth_opt (x # xs) (Suc i) = nth_opt xs i"

text \<open>
  \<open>handleError\<close>, in three parts. Reading \<open>error.name\<close> of \<open>undefined\<close>, splitting an
  absent matcher message and calling \<open>replace\<close> on a trace that is no string throw a
  \<open>TypeError\<close>.
\<close>

text \<open>
  Lines 290 to 296, for the rendered message of the matcher result: \<open>FAILED\<close>, the first
  two lines joined, and the stack or else the remaining lines.
\<close>

definition from_matcher :: "JsValue \<Rightarrow> string \<Rightarrow> Status \<times> string option \<times> string option" where
  "from_matcher error matcherMessage =
     (let ls = str_split (CHR ''\<newline>'') matcherMessage;
          line1 = nth_opt ls 0;
          line2 = nth_opt ls 1;
          restOfMessage = drop 2 ls
      in (FAILED,
          Some (str_join ''\<newline>'' [line1, line2]),
          or_else (prop_stack error) (Some (str_join ''\<newline>'' (map Some restOfMessage)))))"

text \<open>Lines 287 to 296: the status, the message and the trace before they are tidied.\<close>

definition classify :: "JsValue \<Rightarrow> error + (Status \<times> string option \<times> string option)" where
  "classify error =
     (case prop_matcherResult error of
        None \<Rightarrow> Inr (BROKEN, prop_name error, or_else (prop_stack error) (prop_message error))
      | Some MessageUndefined \<Rightarrow> Inl TypeError
      | Some (MessageFunction matcherMessage) \<Rightarrow> Inr (from_matcher error matcherMessage)
      | Some (MessageString matcherMessage) \<Rightarrow> Inr (from_matcher error matcherMessage))"

text \<open>
  Lines 297 to 312: a trace stands in for a missing message, the message is cut out of the
  trace, a placeholder stands in for a message still missing, and both are stripped of
  escape sequences.
\<close>

definition tidy ::
  "JsValue \<Rightarrow> Status \<times> string option \<times> string option \<Rightarrow> error + (Status \<times> string \<times> string)" where
  "tidy error c =
     (let st = fst c;
          msg0 = fst (snd c);
          trace0 = snd (snd c);
          promote = (\<not> truthy msg0 \<and> truthy trace0);
          msg = (if promote then trace0 else msg0);
          trace1 = (if promote
                    then map_option
                           (\<lambda>stack. str_replace stack (to_string msg) ''No stack trace provided'')
                           (prop_stack error)
                    else trace0);
          tr = (case trace1 of
                  None \<Rightarrow> None
                | Some t \<Rightarrow>
                    (if str_includes t (to_string msg)
                     then Some (str_replace t (to_string msg) [])
                     else Some t))
      in if \<not> truthy msg
         then (case error of
                 Str s \<Rightarrow>
                   Inr (st, replaceANSITags ''Error. Expand for more details.'', replaceANSITags s)
               | _ \<Rightarrow> Inl TypeError)
         else (case tr of
                 None \<Rightarrow> Inl TypeError
               | Some t \<Rightarrow> Inr (st, replaceANSITags (to_string msg), replaceANSITags t)))"

definition handleError :: "JsValue \<Rightarrow> error + (Status \<times> string \<times> string)" where
  "handleError error0 =
     (let error = (if isArray error0
                   then (case flattenDeep error0 of [] \<Rightarrow> Undefined | e # _ \<Rightarrow> e)
                   else error0)
      in if error = Undefined then Inl TypeError
         else (case classify error of
                 Inl e \<Rightarrow> Inl e
               | Inr c \<Rightarrow> tidy error c))"

subsection \<open>Labels and links from annotations\<close>

text \<open>
  \<open>setAllureLabelsAndLinks\<close>. \<open>this.testNames[index]\<close> is \<open>undefined\<close> beyond the end of
  the array, and then differs from every name.
\<close>

definition setAllureLabelsAndLinks ::
  "AllureReporter \<Rightarrow> AllureTest \<Rightarrow> string \<Rightarrow> string \<Rightarrow> nat option \<Rightarrow> AllureTest" where
  "setAllureLabelsAndLinks r test labelName v index =
     (if index = None \<or> Some (info_name test) = nth_opt (testNames r) (the index)
      then
        (if labelName = ''issue'' then addLink (jiraUrl r @ v) v ISSUE test
         else if labelName = ''tms'' then addLink (tmsUrl r @ v) v TMS test
         else if labelName = ''tag'' \<or> labelName = ''tags'' then addLabel TAG v test
         else if labelName = ''milestone''
           then addLabel (Named ''epic'') v (addLabel (Named labelName) v test)
         else addLabel (Named labelName) v test)
      else test)"

text \<open>
  One entry of \<open>setAllureReportPragmas\<close>. \<open>value instanceof String\<close> holds of a \<open>String\<close>
  object only, never of a string.
\<close>

fun instanceof_String :: "PragmaValue \<Rightarrow> bool" where
  "instanceof_String (PStringObject s) = True"
| "instanceof_String v = False"

fun pragma_text :: "PragmaValue \<Rightarrow> string" where
  "pragma_text (PString s) = s"
| "pragma_text (PStringObject s) = s"
| "pragma_text (PArray vs) = str_join '','' (map Some vs)"

fun isArray_pragma :: "PragmaValue \<Rightarrow> bool" where
  "isArray_pragma (PArray vs) = True"
| "isArray_pragma v = False"

fun elements :: "PragmaValue \<Rightarrow> string list" where
  "elements (PArray vs) = vs"
| "elements v = []"

definition setAllureReportPragma ::
  "AllureReporter \<Rightarrow> string \<times> PragmaValue \<Rightarrow> AllureTest \<Rightarrow> AllureTest" where
  "setAllureReportPragma r entry test =
     (let pragma = fst entry;
          value0 = snd entry;
          v = (if instanceof_String value0 \<and> str_includes (pragma_text value0) '',''
               then PArray (str_split (CHR '','') (pragma_text value0))
               else value0);
          t = (if isArray_pragma v
               then fold (\<lambda>x t. setAllureLabelsAndLinks r t pragma x None) (elements v) test
               else test)
      in if \<not> isArray_pragma v
         then setAllureLabelsAndLinks r t pragma (pragma_text v) None
         else t)"

definition setAllureReportPragmas ::
  "AllureReporter \<Rightarrow> AllureTest \<Rightarrow> (string \<times> PragmaValue) list \<Rightarrow> AllureTest" where
  "setAllureReportPragmas r test ps = fold (setAllureReportPragma r) ps test"

text \<open>\<open>Array.from(new Set(xs))\<close>: the first occurrence of each element, in order.\<close>

definition new_Set :: "'a list \<Rightarrow> 'a list" where
  "new_Set xs = fold (\<lambda>x s. if x \<in> set s then s else s @ [x]) xs []"

text \<open>\<open>attachLabelsInConcurrent\<close>; an array is truthy, so the loop always runs.\<close>

definition attachLabelsInConcurrent ::
  "AllureReporter \<Rightarrow> AllureTest \<Rightarrow> ref list \<Rightarrow> AllureTest" where
  "attachLabelsInConcurrent r test lbls =
     (let arr = map (labelObjects r) (new_Set lbls)
      in fold (\<lambda>l t. setAllureLabelsAndLinks r t (labels_name l) (labels_value l) (labels_index l))
           arr test)"

text \<open>\<open>addSuiteLabelsToTestCase\<close>\<close>

definition addSuiteLabelsToTestCase :: "Platform \<Rightarrow> AllureTest \<Rightarrow> string \<Rightarrow> AllureTest" where
  "addSuiteLabelsToTestCase p test testPath =
     (let isWindows = (os_type p = ''Windows_NT'');
          pathDelimiter = (if isWindows then CHR 0x5C else CHR ''/'');
          pathsArray = str_split pathDelimiter testPath;
          parentSuite = nth_opt pathsArray 0;
          suites0 = drop 1 pathsArray;
          subSuite = (if suites0 = [] then None else Some (last suites0));
          suites1 = butlast suites0;
          t1 = (if truthy parentSuite
                then addLabel PACKAGE (to_string parentSuite)
                       (addLabel PARENT_SUITE (to_string parentSuite) test)
                else test);
          t2 = (if length suites1 > 0
                then addLabel SUITE (str_join '' > '' (map Some suites1)) t1
                else t1)
      in if truthy subSuite then addLabel SUB_SUITE (to_string subSuite) t2 else t2)"

subsection \<open>The lifecycle operations\<close>

definition startSuite :: "string option \<Rightarrow> TestEntry list option \<Rightarrow> AllureReporter \<Rightarrow> AllureReporter" where
  "startSuite suiteName entries r =
     (let suite = startGroup (case suiteName of None \<Rightarrow> ''Global'' | Some n \<Rightarrow> n);
          r1 = pushSuite suite r
      in case entries of
           None \<Rightarrow> r1
         | Some ts \<Rightarrow> r1\<lparr>testNames := testNames r1 @ map test_name ts\<rparr>)"

definition startTestFile :: "string option \<Rightarrow> AllureReporter \<Rightarrow> AllureReporter" where
  "startTestFile suiteName r = startSuite suiteName None r"

text \<open>
  \<open>endSuite\<close>: \<open>step.endStep()\<close> on every step of the stack, \<open>test.endTest()\<close> on every
  test of the stack, then \<open>endGroup()\<close> on the current suite, which is popped.
\<close>

definition endSuite :: "AllureReporter \<Rightarrow> result" where
  "endSuite r =
     (case currentSuite r of
        None \<Rightarrow> Inl (InvalidState ''endSuite called while no suite is running'', r)
      | Some suite \<Rightarrow>
          (let r1 = (if length (steps r) > 0
                     then r\<lparr>closed := closed r @ map EndStep (steps r)\<rparr> else r);
               r2 = (if length (tests r1) > 0
                     then r1\<lparr>closed := closed r1 @ map EndTest (tests r1)\<rparr> else r1);
               r3 = r2\<lparr>closed := closed r2 @ [EndGroup suite]\<rparr>
           in Inr (popSuite r3)))"

text \<open>
  \<open>endTestFile\<close>: \<open>for (const _ of this.suites) this.endSuite()\<close>. The iterator of an array
  holds an index \<open>i\<close>, and goes on while \<open>i\<close> is below the length the array has then.
\<close>

function endTestFile_loop :: "nat \<Rightarrow> AllureReporter \<Rightarrow> result" where
  "endTestFile_loop i r =
     (if i < length (suites r)
      then (case endSuite r of
              Inl e \<Rightarrow> Inl e
            | Inr r' \<Rightarrow> endTestFile_loop (i + 1) r')
      else Inr r)"
  by pat_completeness auto
termination
  by (relation "measure (\<lambda>(i, r). length (suites r) - i)")
    (auto simp: endSuite_def popSuite_def Let_def split: option.splits)

definition endTestFile :: "AllureReporter \<Rightarrow> result" where
  "endTestFile r = endTestFile_loop 0 r"

definition startHook :: "string \<Rightarrow> AllureReporter \<Rightarrow> AllureReporter" where
  "startHook hookType r =
     (let suite = currentSuite r;
          r1 = (if suite \<noteq> None \<and> startsWith hookType ''before''
                then r\<lparr>currentExecutable := Some fixtureResult\<rparr> else r)
      in if suite \<noteq> None \<and> startsWith hookType ''after''
         then r1\<lparr>currentExecutable := Some fixtureResult\<rparr> else r1)"

text \<open>Truthiness of an error value: \<open>undefined\<close> and the empty string are falsy.\<close>

fun truthy_value :: "JsValue \<Rightarrow> bool" where
  "truthy_value Undefined = False"
| "truthy_value (Str s) = (s \<noteq> [])"
| "truthy_value v = True"

text \<open>\<open>endHook(error?)\<close>; no argument is \<open>Undefined\<close>.\<close>

definition endHook :: "JsValue \<Rightarrow> AllureReporter \<Rightarrow> result" where
  "endHook error r =
     (case currentExecutable r of
        None \<Rightarrow> Inl (InvalidState ''endHook called while no executable is running'', r)
      | Some x \<Rightarrow>
          (if truthy_value error
           then (case handleError error of
                   Inl e \<Rightarrow> Inl (e, r)
                 | Inr (st, msg, tr) \<Rightarrow>
                     Inr (r\<lparr>currentExecutable :=
                              Some (x\<lparr>status := Some st,
                                      statusDetails := \<lparr>message = Some msg, trace = Some tr\<rparr>,
                                      stage := FINISHED\<rparr>)\<rparr>))
           else Inr (r\<lparr>currentExecutable := Some (x\<lparr>status := Some PASSED, stage := FINISHED\<rparr>)\<rparr>)))"

definition startTestCase ::
  "Platform \<Rightarrow> string \<Rightarrow> TestEntry \<Rightarrow> State \<Rightarrow> string \<Rightarrow> AllureReporter \<Rightarrow> result" where
  "startTestCase p uuid test state testPath r =
     (case currentSuite r of
        None \<Rightarrow> Inl (InvalidState ''startTestCase called while no suite is running'', r)
      | Some suite \<Rightarrow>
          (let t0 = (startTest uuid (test_name test))
                      \<lparr>fullName := Some (test_name test),
                       historyId := md5_hex p (testPath @ ''.'' @ test_name test),
                       stage := RUNNING\<rparr>;
               t1 = (if addCodeInReport r
                     then (case fn test of
                             Some d \<Rightarrow>
                               (setAllureReportPragmas r t0 (pragmas d))
                                 \<lparr>description :=
                                    Some (comments d @ ''\<newline>### Test\<newline>```typescript\<newline>''
                                          @ code d @ ''\<newline>```\<newline>'')\<rparr>
                           | None \<Rightarrow>
                               t0\<lparr>description := Some ''### Test\<newline>Code is not available.\<newline>''\<rparr>)
                     else t0);
               t2 = (if truthy (JEST_WORKER_ID state)
                     then addLabel THREAD (to_string (JEST_WORKER_ID state)) t1
                     else t1);
               t3 = addSuiteLabelsToTestCase p t2 testPath
           in Inr (pushTest t3 r)))"



definition failTestCase :: "JsValue \<Rightarrow> AllureReporter \<Rightarrow> result" where
  "failTestCase error r =
     (case currentTest r of
        None \<Rightarrow> Inl (InvalidState ''failTestCase called while no test is running'', r)
      | Some t \<Rightarrow>
          (let t1 = attachLabelsInConcurrent r t (labels r);
               r1 = update_currentTest (\<lambda>_. t1) r;
               latestStatus = status t1;
               isBrokenTest = (latestStatus = Some BROKEN \<and> stage t1 \<noteq> RUNNING)
           in if latestStatus = Some FAILED \<or> isBrokenTest then Inr r1
              else (case handleError error of
                      Inl e \<Rightarrow> Inl (e, r1)
                    | Inr (st, msg, tr) \<Rightarrow>
                        Inr (update_currentTest
                               (\<lambda>t. t\<lparr>status := Some st,
                                       statusDetails := \<lparr>message = Some msg, trace = Some tr\<rparr>\<rparr>)
                               r1))))"


text \<open>
  A reporter as its constructor leaves it: nothing open, no known test name and no
  accumulated label.
\<close>

definition new_AllureReporter :: "string \<Rightarrow> string \<Rightarrow> bool \<Rightarrow> AllureReporter" where
  "new_AllureReporter jira tms addCode =
     \<lparr>currentExecutable = None, suites = [], steps = [], tests = [],
      jiraUrl = jira, tmsUrl = tms, testNames = [], addCodeInReport = addCode,
      labels = [], labelObjects = (\<lambda>_. \<lparr>labels_name = [], labels_value = [], labels_index = None\<rparr>),
      closed = []\<rparr>"

subsection \<open>Values for evaluating the operations\<close>

text \<open>A platform that is not Windows; its digest function stands for MD5.\<close>

definition posix :: Platform where
  "posix = \<lparr>md5_hex = id, os_type = ''Linux''\<rparr>"

definition no_worker :: State where
  "no_worker = \<lparr>JEST_WORKER_ID = None\<rparr>"

definition plain_test :: "string \<Rightarrow> TestEntry" where
  "plain_test nm = \<lparr>test_name = nm, fn = None, mode = None\<rparr>"

definition fresh_reporter :: AllureReporter where
  "fresh_reporter = new_AllureReporter ''https://jira.example/'' ''https://tms.example/'' True"

text \<open>One suite is open.\<close>

definition one_suite :: AllureReporter where
  "one_suite = startSuite (Some ''suite'') None fresh_reporter"

text \<open>A test file with its top-level describe block: two suites are open.\<close>

definition two_suites :: AllureReporter where
  "two_suites =
     startSuite (Some ''describe'') None (startTestFile (Some ''file.spec.ts'') fresh_reporter)"

text \<open>
  A test whose documentation comment holds \<open>@issue JIRA-1,JIRA-2\<close>: the parser gives the
  pragma \<open>issue\<close> with the string \<open>JIRA-1,JIRA-2\<close>.
\<close>

definition issue_test :: TestEntry where
  "issue_test =
     \<lparr>test_name = ''logs in'',
      fn = Some \<lparr>comments = ''Logs in.'',
                 pragmas = [(''issue'', PString ''JIRA-1,JIRA-2'')],
                 code = ''() => { expect(1).toBe(1); }''\<rparr>,
      mode = None\<rparr>"

text \<open>
  A suite of two tests, and two accumulated labels, the first recorded for the test of
  index 0 and the second for the test of index 1.
\<close>

definition two_labels :: "string \<Rightarrow> string \<Rightarrow> AllureReporter" where
  "two_labels name0 name1 =
     (startSuite (Some ''suite'') (Some [plain_test name0, plain_test name1]) fresh_reporter)
       \<lparr>labels := [0, 1],
        labelObjects :=
          (!) [\<lparr>labels_name = ''owner'', labels_value = ''ann'', labels_index = Some 0\<rparr>,
               \<lparr>labels_name = ''owner'', labels_value = ''bob'', labels_index = Some 1\<rparr>]\<rparr>"

section \<open>Properties\<close>

subsection \<open>What attaching labels keeps\<close>

lemma fold_keeps:
  assumes "\<And>x t. g (f x t) = g t"
  shows "g (fold f xs t) = g t"
  using assms by (induction xs arbitrary: t) simp_all

lemma setAllureLabelsAndLinks_keeps:
  "status (setAllureLabelsAndLinks r t n v i) = status t"
  "statusDetails (setAllureLabelsAndLinks r t n v i) = statusDetails t"
  "stage (setAllureLabelsAndLinks r t n v i) = stage t"
  "info_name (setAllureLabelsAndLinks r t n v i) = info_name t"
  "historyId (setAllureLabelsAndLinks r t n v i) = historyId t"
  by (simp_all add: setAllureLabelsAndLinks_def addLabel_def addLink_def)

lemma attachLabelsInConcurrent_keeps:
  "status (attachLabelsInConcurrent r t ls) = status t"
  "statusDetails (attachLabelsInConcurrent r t ls) = statusDetails t"
  "stage (attachLabelsInConcurrent r t ls) = stage t"
  "info_name (attachLabelsInConcurrent r t ls) = info_name t"
  "historyId (attachLabelsInConcurrent r t ls) = historyId t"
  unfolding attachLabelsInConcurrent_def Let_def
  by (rule fold_keeps, simp add: setAllureLabelsAndLinks_keeps)+

lemma currentTest_Some:
  "currentTest r = Some t \<longleftrightarrow> tests r \<noteq> [] \<and> t = last (tests r)"
  by (auto simp: currentTest_def last_conv_nth)

lemma currentTest_update:
  "tests r \<noteq> [] \<Longrightarrow> currentTest (update_currentTest f r) = Some (f (last (tests r)))"
  by (simp add: currentTest_def update_currentTest_def last_conv_nth)

lemma one_suite_eq:
  "one_suite = fresh_reporter\<lparr>suites := [\<lparr>group_name = ''suite''\<rparr>]\<rparr>"
  by (simp add: one_suite_def fresh_reporter_def new_AllureReporter_def startSuite_def
      startGroup_def pushSuite_def)

subsection \<open>Closing a suite\<close>

lemma endSuite_open:
  assumes "suites r \<noteq> []"
  shows "endSuite r
       = Inr (popSuite (r\<lparr>closed := closed r @ map EndStep (steps r) @ map EndTest (tests r)
                                   @ [EndGroup (last (suites r))]\<rparr>))"
  using assms
  by (simp add: endSuite_def currentSuite_def Let_def last_conv_nth)

text \<open>
  C1, as the code has it. For every reporter state with an open suite, \<open>endSuite\<close> returns
  normally; it calls \<open>endStep\<close> on every step of the step stack, then \<open>endTest\<close> on every
  test of the test stack, then \<open>endGroup\<close> on the current suite, and pops that suite. The
  current executable is left as it was: a hook whose \<open>endHook\<close> was never called is not
  finished by \<open>endSuite\<close>.
\<close>

theorem endSuite_closes:
  assumes "suites r \<noteq> []"
  shows "\<exists>r'. endSuite r = Inr r'
           \<and> closed r' = closed r @ map EndStep (steps r) @ map EndTest (tests r)
                          @ [EndGroup (last (suites r))]
           \<and> suites r' = butlast (suites r)
           \<and> currentExecutable r' = currentExecutable r"
  using assms by (simp add: endSuite_open popSuite_def)

theorem endSuite_closes_witness:
  "suites (pushStep \<lparr>step_name = ''step''\<rparr> one_suite) \<noteq> []
   \<and> \<not> isl (endSuite (pushStep \<lparr>step_name = ''step''\<rparr> one_suite))
   \<and> closed (projr (endSuite (pushStep \<lparr>step_name = ''step''\<rparr> one_suite)))
       = [EndStep \<lparr>step_name = ''step''\<rparr>, EndGroup \<lparr>group_name = ''suite''\<rparr>]
   \<and> suites (projr (endSuite (pushStep \<lparr>step_name = ''step''\<rparr> one_suite))) = []"
proof -
  let ?r = "pushStep \<lparr>step_name = ''step''\<rparr> one_suite"
  have ne: "suites ?r \<noteq> []"
    by (simp add: one_suite_eq pushStep_def)
  from endSuite_closes [OF ne] obtain r' where
    "endSuite ?r = Inr r'"
    "closed r' = closed ?r @ map EndStep (steps ?r) @ map EndTest (tests ?r)
                  @ [EndGroup (last (suites ?r))]"
    "suites r' = butlast (suites ?r)"
    by blast
  then show ?thesis
    by (simp add: one_suite_eq pushStep_def fresh_reporter_def new_AllureReporter_def)
qed

text \<open>
  The claim as the specification states it fails. A suite is opened, a \<open>beforeAll\<close> hook and
  a test are started in it, and the suite is ended: \<open>endSuite\<close> returns, the hook is still
  pending and the test is still on the stack with stage \<open>RUNNING\<close>.
\<close>

theorem endSuite_leaves_hook_unfinished:
  "\<not> isl (startTestCase posix ''u'' (plain_test ''t'') no_worker ''a/t.spec.ts''
            (startHook ''beforeAll'' one_suite))
   \<and> \<not> isl (endSuite (projr (startTestCase posix ''u'' (plain_test ''t'') no_worker ''a/t.spec.ts''
            (startHook ''beforeAll'' one_suite))))
   \<and> map_option stage (currentExecutable (projr (endSuite (projr
        (startTestCase posix ''u'' (plain_test ''t'') no_worker ''a/t.spec.ts''
            (startHook ''beforeAll'' one_suite))))))
       = Some PENDING
   \<and> map stage (tests (projr (endSuite (projr
        (startTestCase posix ''u'' (plain_test ''t'') no_worker ''a/t.spec.ts''
            (startHook ''beforeAll'' one_suite))))))
       = [RUNNING]"
  by (simp add: one_suite_eq fresh_reporter_def new_AllureReporter_def startHook_def
      startTestCase_def currentSuite_def endSuite_def popSuite_def pushTest_def plain_test_def
      no_worker_def posix_def fixtureResult_def startTest_def addSuiteLabelsToTestCase_def
      addLabel_def Let_def)

subsection \<open>Closing a test file\<close>

lemma endTestFile_loop_length:
  "\<exists>r'. endTestFile_loop i r = Inr r'
        \<and> length (suites r')
            = (if i < length (suites r) then (length (suites r) + i) div 2
               else length (suites r))"
proof (induction i r rule: endTestFile_loop.induct)
  case (1 i r)
  show ?case
  proof (cases "i < length (suites r)")
    case False
    then show ?thesis by (subst endTestFile_loop.simps) simp
  next
    case True
    then have ne: "suites r \<noteq> []" by auto
    obtain r1 where e: "endSuite r = Inr r1"
      and l: "length (suites r1) = length (suites r) - 1"
      using endSuite_open [OF ne] by (simp add: popSuite_def)
    from "1.IH" [OF True e] obtain r' where
      h: "endTestFile_loop (i + 1) r1 = Inr r'"
         "length (suites r')
            = (if i + 1 < length (suites r1) then (length (suites r1) + (i + 1)) div 2
               else length (suites r1))"
      by blast
    have "endTestFile_loop i r = Inr r'"
      using True e h(1) by (subst endTestFile_loop.simps) simp
    moreover have "length (suites r') = (length (suites r) + i) div 2"
      using h(2) l True by (auto split: if_splits)
    ultimately show ?thesis using True by simp
  qed
qed

text \<open>
  \<open>endTestFile\<close> always returns, and closes the upper half of the suite stack only: the
  iterator stops once its index has reached the length of the shrinking array.
\<close>

lemma endTestFile_leaves_half:
  "\<exists>r'. endTestFile r = Inr r' \<and> length (suites r') = length (suites r) div 2"
  using endTestFile_loop_length [of 0 r] by (auto simp: endTestFile_def)

text \<open>
  C2 does not hold of the code. With the suite of the file and the suite of its describe
  block open, \<open>endTestFile\<close> calls \<open>endSuite\<close> once and returns with the suite of the file
  still open.
\<close>

theorem endTestFile_leaves_a_suite:
  "length (suites two_suites) = 2
   \<and> \<not> isl (endTestFile two_suites)
   \<and> suites (projr (endTestFile two_suites)) = [\<lparr>group_name = ''file.spec.ts''\<rparr>]
   \<and> currentSuite (projr (endTestFile two_suites)) = Some \<lparr>group_name = ''file.spec.ts''\<rparr>"
  by (simp add: two_suites_def endTestFile_def endSuite_def startSuite_def startTestFile_def
      fresh_reporter_def new_AllureReporter_def
      pushSuite_def popSuite_def currentSuite_def startGroup_def Let_def)

subsection \<open>A failed test stays failed\<close>

text \<open>
  C3. When the open test is already \<open>FAILED\<close>, or is \<open>BROKEN\<close> with a stage other than
  \<open>RUNNING\<close>, \<open>failTestCase\<close> returns normally and the status and the status details of
  the open test are what they were; so is its stage, and so are the tests below it.
\<close>

theorem failTestCase_no_downgrade:
  assumes "currentTest r = Some t"
    and "status t = Some FAILED \<or> (status t = Some BROKEN \<and> stage t \<noteq> RUNNING)"
  shows "\<exists>r' t'. failTestCase error r = Inr r' \<and> currentTest r' = Some t'
           \<and> status t' = status t \<and> statusDetails t' = statusDetails t \<and> stage t' = stage t
           \<and> length (tests r') = length (tests r)
           \<and> butlast (tests r') = butlast (tests r)"
proof -
  let ?t1 = "attachLabelsInConcurrent r t (labels r)"
  let ?r1 = "update_currentTest (\<lambda>_. ?t1) r"
  from assms(1) have ne: "tests r \<noteq> []" and t: "t = last (tests r)"
    by (simp_all add: currentTest_Some)
  have keep: "status ?t1 = status t" "stage ?t1 = stage t" "statusDetails ?t1 = statusDetails t"
    by (simp_all add: attachLabelsInConcurrent_keeps)
  have "failTestCase error r = Inr ?r1"
    using assms keep by (auto simp: failTestCase_def Let_def)
  moreover have "currentTest ?r1 = Some ?t1"
    using ne by (simp add: currentTest_update)
  moreover have "length (tests ?r1) = length (tests r)"
    by (simp add: update_currentTest_def)
  moreover have "butlast (tests ?r1) = butlast (tests r)"
    using ne by (simp add: update_currentTest_def butlast_list_update)
  ultimately show ?thesis using keep by blast
qed

theorem failTestCase_no_downgrade_witness:
  "currentTest (pushTest ((startTest ''u'' ''t'')\<lparr>status := Some FAILED\<rparr>) one_suite)
     = Some ((startTest ''u'' ''t'')\<lparr>status := Some FAILED\<rparr>)
   \<and> status ((startTest ''u'' ''t'')\<lparr>status := Some FAILED\<rparr>) = Some FAILED
   \<and> \<not> isl (failTestCase (Str ''boom'')
        (pushTest ((startTest ''u'' ''t'')\<lparr>status := Some FAILED\<rparr>) one_suite))
   \<and> map status (tests (projr (failTestCase (Str ''boom'')
        (pushTest ((startTest ''u'' ''t'')\<lparr>status := Some FAILED\<rparr>) one_suite))))
      = [Some FAILED]"
proof -
  let ?t = "(startTest ''u'' ''t'')\<lparr>status := Some FAILED\<rparr>"
  let ?r = "pushTest ?t one_suite"
  have c: "currentTest ?r = Some ?t"
    by (simp add: currentTest_def pushTest_def)
  have s: "status ?t = Some FAILED"
    by simp
  from failTestCase_no_downgrade [OF c disjI1 [OF s], of "Str ''boom''"] obtain r' t' where
    h: "failTestCase (Str ''boom'') ?r = Inr r'" "currentTest r' = Some t'"
      "status t' = status ?t" "length (tests r') = length (tests ?r)"
    by blast
  from h(4) have "length (tests r') = 1"
    by (simp add: pushTest_def one_suite_eq fresh_reporter_def new_AllureReporter_def)
  then obtain x where x: "tests r' = [x]"
    by (cases "tests r'") auto
  with h(2) have "x = t'" by (simp add: currentTest_def)
  with x h c s show ?thesis by simp
qed

subsection \<open>Operations with nothing open\<close>



subsection \<open>The history identifier\<close>






subsection \<open>Labels gated by the name of the test\<close>

lemma nth_opt_Some: "nth_opt xs i = Some x \<longleftrightarrow> i < length xs \<and> xs ! i = x"
proof (induction xs arbitrary: i)
  case Nil
  then show ?case by simp
next
  case (Cons y ys)
  then show ?case by (cases i) auto
qed

lemma setAllureLabelsAndLinks_gate:
  "setAllureLabelsAndLinks r t n v (Some i)
     = (if i < length (testNames r) \<and> testNames r ! i = info_name t
        then setAllureLabelsAndLinks r t n v None else t)"
proof -
  have "(Some (info_name t) = nth_opt (testNames r) i)
       \<longleftrightarrow> (i < length (testNames r) \<and> testNames r ! i = info_name t)"
    using nth_opt_Some [of "testNames r" i "info_name t"] by auto
  then show ?thesis
    by (simp add: setAllureLabelsAndLinks_def)
qed

lemma fold_gated:
  assumes "info_name t = nm"
  shows "fold (\<lambda>l u. setAllureLabelsAndLinks r u (labels_name l) (labels_value l) (labels_index l))
           arr t
       = fold (\<lambda>l u. setAllureLabelsAndLinks r u (labels_name l) (labels_value l) None)
           (filter (\<lambda>l. case labels_index l of
                           None \<Rightarrow> True
                         | Some i \<Rightarrow> i < length (testNames r) \<and> testNames r ! i = nm) arr) t"
  using assms
proof (induction arr arbitrary: t)
  case Nil
  then show ?case by simp
next
  case (Cons l arr)
  show ?case
  proof (cases "labels_index l")
    case None
    then show ?thesis using Cons by (simp add: setAllureLabelsAndLinks_keeps)
  next
    case (Some i)
    then show ?thesis
      using Cons by (simp add: setAllureLabelsAndLinks_gate setAllureLabelsAndLinks_keeps)
  qed
qed

text \<open>
  C5, as the code has it. Applying the accumulated labels to a test attaches, in order,
  the labels without an index and the labels whose index names an entry of \<open>testNames\<close>
  equal to the name of the test, and no other label. In particular, given two labels with
  the indices 0 and 1 and a test named as \<open>testNames[0]\<close>, only the label of index 0 is
  attached, provided \<open>testNames[0]\<close> and \<open>testNames[1]\<close> are different names.
\<close>

theorem labels_gated_by_name:
  "attachLabelsInConcurrent r t lbls
     = fold (\<lambda>l u. setAllureLabelsAndLinks r u (labels_name l) (labels_value l) None)
         (filter (\<lambda>l. case labels_index l of
                         None \<Rightarrow> True
                       | Some i \<Rightarrow> i < length (testNames r) \<and> testNames r ! i = info_name t)
            (map (labelObjects r) (new_Set lbls))) t
   \<and> (labels_index (labelObjects r a) = Some 0
        \<and> labels_index (labelObjects r b) = Some 1
        \<and> 1 < length (testNames r) \<and> info_name t = testNames r ! 0
        \<and> testNames r ! 0 \<noteq> testNames r ! 1
      \<longrightarrow> attachLabelsInConcurrent r t [a, b]
          = setAllureLabelsAndLinks r t (labels_name (labelObjects r a))
              (labels_value (labelObjects r a)) None)"
proof -
  have g: "attachLabelsInConcurrent r t ls
     = fold (\<lambda>l u. setAllureLabelsAndLinks r u (labels_name l) (labels_value l) None)
         (filter (\<lambda>l. case labels_index l of
                         None \<Rightarrow> True
                       | Some i \<Rightarrow> i < length (testNames r) \<and> testNames r ! i = info_name t)
            (map (labelObjects r) (new_Set ls))) t" for ls
    unfolding attachLabelsInConcurrent_def Let_def
    by (rule fold_gated) simp
  have s: "new_Set [a, b] = (if a = b then [a] else [a, b])"
    by (simp add: new_Set_def)
  show ?thesis
    by (auto simp: g s)
qed

lemma two_labels_eq:
  "testNames (two_labels n0 n1) = [n0, n1]"
  "labels (two_labels n0 n1) = [0, 1]"
  "labelObjects (two_labels n0 n1) 0
     = \<lparr>labels_name = ''owner'', labels_value = ''ann'', labels_index = Some 0\<rparr>"
  "labelObjects (two_labels n0 n1) 1
     = \<lparr>labels_name = ''owner'', labels_value = ''bob'', labels_index = Some 1\<rparr>"
  "labelObjects (two_labels n0 n1) (Suc 0)
     = \<lparr>labels_name = ''owner'', labels_value = ''bob'', labels_index = Some 1\<rparr>"
  by (simp_all add: two_labels_def startSuite_def pushSuite_def startGroup_def plain_test_def
      fresh_reporter_def new_AllureReporter_def)

theorem labels_gated_by_name_witness:
  "labels_index (labelObjects (two_labels ''first'' ''second'') 0) = Some 0
   \<and> labels_index (labelObjects (two_labels ''first'' ''second'') 1) = Some 1
   \<and> 1 < length (testNames (two_labels ''first'' ''second''))
   \<and> info_name (startTest ''u'' ''first'') = testNames (two_labels ''first'' ''second'') ! 0
   \<and> testNames (two_labels ''first'' ''second'') ! 0
       \<noteq> testNames (two_labels ''first'' ''second'') ! 1
   \<and> result_labels (attachLabelsInConcurrent (two_labels ''first'' ''second'')
        (startTest ''u'' ''first'') [0, 1])
     = [\<lparr>label_name = Named ''owner'', label_value = ''ann''\<rparr>]"
proof -
  have h: "labels_index (labelObjects (two_labels ''first'' ''second'') 0) = Some 0
     \<and> labels_index (labelObjects (two_labels ''first'' ''second'') 1) = Some 1
     \<and> 1 < length (testNames (two_labels ''first'' ''second''))
     \<and> info_name (startTest ''u'' ''first'') = testNames (two_labels ''first'' ''second'') ! 0
     \<and> testNames (two_labels ''first'' ''second'') ! 0
         \<noteq> testNames (two_labels ''first'' ''second'') ! 1"
    by (simp add: two_labels_eq startTest_def)
  from labels_gated_by_name [of "two_labels ''first'' ''second''" "startTest ''u'' ''first''"
      "[0, 1]" 0 1] h
  have "attachLabelsInConcurrent (two_labels ''first'' ''second'') (startTest ''u'' ''first'') [0, 1]
      = setAllureLabelsAndLinks (two_labels ''first'' ''second'') (startTest ''u'' ''first'')
          (labels_name (labelObjects (two_labels ''first'' ''second'') 0))
          (labels_value (labelObjects (two_labels ''first'' ''second'') 0)) None"
    by blast
  then show ?thesis
    using h by (simp add: two_labels_eq setAllureLabelsAndLinks_def addLabel_def startTest_def)
qed

text \<open>
  The particular case as the specification states it fails when the two tests have the
  same name: the label recorded for the test of index 1 is attached to the test of index 0
  as well.
\<close>

theorem label_leaks_between_equal_names:
  "testNames (two_labels ''dup'' ''dup'') = [''dup'', ''dup'']
   \<and> labels (two_labels ''dup'' ''dup'') = [0, 1]
   \<and> labels_index (labelObjects (two_labels ''dup'' ''dup'') 0) = Some 0
   \<and> labels_index (labelObjects (two_labels ''dup'' ''dup'') 1) = Some 1
   \<and> result_labels (attachLabelsInConcurrent (two_labels ''dup'' ''dup'')
        (startTest ''u'' ''dup'') (labels (two_labels ''dup'' ''dup'')))
       = [\<lparr>label_name = Named ''owner'', label_value = ''ann''\<rparr>,
          \<lparr>label_name = Named ''owner'', label_value = ''bob''\<rparr>]"
  by (simp add: two_labels_eq attachLabelsInConcurrent_def new_Set_def
      setAllureLabelsAndLinks_def addLabel_def startTest_def Let_def)

subsection \<open>Annotations with several values\<close>

text \<open>
  C6 does not hold of the code. For a test whose documentation comment holds the
  annotation \<open>issue\<close> with the value \<open>JIRA-1,JIRA-2\<close>, \<open>startTestCase\<close> gives the test one
  link, whose URL ends in \<open>JIRA-1,JIRA-2\<close>: the value is a string, and the code splits
  a \<open>String\<close> object only.
\<close>

theorem issue_values_not_split:
  "\<not> isl (startTestCase posix ''u'' issue_test no_worker ''a/b.spec.ts'' one_suite)
   \<and> map result_links (tests (projr
        (startTestCase posix ''u'' issue_test no_worker ''a/b.spec.ts'' one_suite)))
     = [\<lparr>link_url = ''https://jira.example/JIRA-1,JIRA-2'', link_name = ''JIRA-1,JIRA-2'',
          link_type = ISSUE\<rparr>] # []"
  by (simp add: startTestCase_def one_suite_eq fresh_reporter_def new_AllureReporter_def
      currentSuite_def issue_test_def Let_def setAllureReportPragmas_def setAllureReportPragma_def
      setAllureLabelsAndLinks_def addLink_def addLabel_def startTest_def pushTest_def
      addSuiteLabelsToTestCase_def no_worker_def posix_def)

text \<open>The branch that splits is taken for a \<open>String\<close> object, and gives the two links.\<close>

lemma String_object_is_split:
  "result_links (setAllureReportPragmas fresh_reporter (startTest ''u'' ''t'')
       [(''issue'', PStringObject ''JIRA-1,JIRA-2'')])
     = [\<lparr>link_url = ''https://jira.example/JIRA-1'', link_name = ''JIRA-1'', link_type = ISSUE\<rparr>,
        \<lparr>link_url = ''https://jira.example/JIRA-2'', link_name = ''JIRA-2'', link_type = ISSUE\<rparr>]"
  by (simp add: fresh_reporter_def new_AllureReporter_def
      Let_def setAllureReportPragmas_def setAllureReportPragma_def
      setAllureLabelsAndLinks_def addLink_def addLabel_def startTest_def)

subsection \<open>The error of a failed assertion\<close>

lemma replaceANSITags_expected:
  "replaceANSITags ''Expected: 1\<newline>Received: 2'' = ''Expected: 1\<newline>Received: 2''"
  by code_simp

lemma replaceANSITags_extra:
  "replaceANSITags ''extra line'' = ''extra line''"
  by code_simp

text \<open>
  C7. For every error object that has a matcher result whose message, rendered by a
  function or held as a string, is \<open>Expected: 1\<close>, \<open>Received: 2\<close>, \<open>extra line\<close> on three
  lines, and that has no stack (none, or the empty string), \<open>handleError\<close> returns the
  status \<open>FAILED\<close>, the first two lines as the message and \<open>extra line\<close> as the trace.
  The same holds of an array whose first element, once the array is flattened, is such
  an error object.
\<close>

theorem handleError_assertion:
  assumes "matcherResult e = Some (MessageFunction ''Expected: 1\<newline>Received: 2\<newline>extra line'')
         \<or> matcherResult e = Some (MessageString ''Expected: 1\<newline>Received: 2\<newline>extra line'')"
    and "\<not> truthy (error_stack e)"
  shows "handleError (Obj e) = Inr (FAILED, ''Expected: 1\<newline>Received: 2'', ''extra line'')
       \<and> (\<forall>xs rest. flattenDeep (Arr xs) = Obj e # rest \<longrightarrow>
            handleError (Arr xs)
              = Inr (FAILED, ''Expected: 1\<newline>Received: 2'', ''extra line''))"
proof -
  have o: "or_else (error_stack e) x = x" for x
    using assms(2) by (simp add: or_else_def)
  have "handleError (Obj e) = Inr (FAILED, ''Expected: 1\<newline>Received: 2'', ''extra line'')"
    using assms(1)
    by (auto simp: handleError_def classify_def from_matcher_def tidy_def Let_def o
        replaceANSITags_expected replaceANSITags_extra)
  moreover have "handleError (Arr xs) = handleError (Obj e)"
    if "flattenDeep (Arr xs) = Obj e # rest" for xs rest
    using that by (simp add: handleError_def)
  ultimately show ?thesis by simp
qed

theorem handleError_assertion_witness:
  "matcherResult \<lparr>error_name = Some ''Error'', error_stack = None, error_message = Some ''boom'',
       matcherResult = Some (MessageFunction ''Expected: 1\<newline>Received: 2\<newline>extra line'')\<rparr>
     = Some (MessageFunction ''Expected: 1\<newline>Received: 2\<newline>extra line'')
   \<and> \<not> truthy (error_stack \<lparr>error_name = Some ''Error'', error_stack = None,
       error_message = Some ''boom'',
       matcherResult = Some (MessageFunction ''Expected: 1\<newline>Received: 2\<newline>extra line'')\<rparr>)
   \<and> handleError (Obj \<lparr>error_name = Some ''Error'', error_stack = None,
       error_message = Some ''boom'',
       matcherResult = Some (MessageFunction ''Expected: 1\<newline>Received: 2\<newline>extra line'')\<rparr>)
     = Inr (FAILED, ''Expected: 1\<newline>Received: 2'', ''extra line'')
   \<and> handleError (Arr [Arr [Obj \<lparr>error_name = Some ''Error'', error_stack = None,
       error_message = Some ''boom'',
       matcherResult = Some (MessageFunction ''Expected: 1\<newline>Received: 2\<newline>extra line'')\<rparr>]])
     = Inr (FAILED, ''Expected: 1\<newline>Received: 2'', ''extra line'')"
  using handleError_assertion [of "\<lparr>error_name = Some ''Error'', error_stack = None,
       error_message = Some ''boom'',
       matcherResult = Some (MessageFunction ''Expected: 1\<newline>Received: 2\<newline>extra line'')\<rparr>"]
  by simp

subsection \<open>Suite labels from the path of the test\<close>

lemma str_split_nonempty: "str_split d s \<noteq> []"
  by (induction s) (auto split: list.splits)

text \<open>
  C8, as the code has it. The path is split at the path delimiter (a backslash on Windows, \<open>/\<close>
  elsewhere). The first segment, unless empty, becomes the parent-suite label and the
  package label; with three segments or more, the segments between the first and the last,
  joined with \<open> > \<close>, become the suite label; with two segments or more, the last segment,
  unless empty, becomes the sub-suite label. No other label is added, and nothing else of
  the test changes. In particular, where the delimiter is \<open>/\<close>, the path \<open>a/b/c.spec.ts\<close>
  gives parent suite and package \<open>a\<close>, suite \<open>b\<close> and sub-suite \<open>c.spec.ts\<close>.
\<close>

theorem suite_labels_from_path:
  "(let segs = str_split (if os_type p = ''Windows_NT'' then CHR 0x5C else CHR ''/'') testPath
    in addSuiteLabelsToTestCase p t testPath
       = t\<lparr>result_labels :=
             result_labels t
             @ (if hd segs = [] then []
                else [\<lparr>label_name = PARENT_SUITE, label_value = hd segs\<rparr>,
                      \<lparr>label_name = PACKAGE, label_value = hd segs\<rparr>])
             @ (if 3 \<le> length segs
                then [\<lparr>label_name = SUITE,
                       label_value = str_join '' > '' (map Some (butlast (tl segs)))\<rparr>]
                else [])
             @ (if 2 \<le> length segs \<and> last segs \<noteq> []
                then [\<lparr>label_name = SUB_SUITE, label_value = last segs\<rparr>]
                else [])\<rparr>)
   \<and> (os_type p \<noteq> ''Windows_NT'' \<longrightarrow>
        result_labels (addSuiteLabelsToTestCase p t ''a/b/c.spec.ts'')
          = result_labels t
            @ [\<lparr>label_name = PARENT_SUITE, label_value = ''a''\<rparr>,
               \<lparr>label_name = PACKAGE, label_value = ''a''\<rparr>,
               \<lparr>label_name = SUITE, label_value = ''b''\<rparr>,
               \<lparr>label_name = SUB_SUITE, label_value = ''c.spec.ts''\<rparr>])"
proof (rule conjI)
  let ?segs = "str_split (if os_type p = ''Windows_NT'' then CHR 0x5C else CHR ''/'') testPath"
  obtain x xs where segs: "?segs = x # xs"
    using str_split_nonempty [of _ testPath] by (cases ?segs) auto
  have "addSuiteLabelsToTestCase p t testPath
     = t\<lparr>result_labels :=
           result_labels t
           @ (if hd ?segs = [] then []
              else [\<lparr>label_name = PARENT_SUITE, label_value = hd ?segs\<rparr>,
                    \<lparr>label_name = PACKAGE, label_value = hd ?segs\<rparr>])
           @ (if 3 \<le> length ?segs
              then [\<lparr>label_name = SUITE,
                     label_value = str_join '' > '' (map Some (butlast (tl ?segs)))\<rparr>]
              else [])
           @ (if 2 \<le> length ?segs \<and> last ?segs \<noteq> []
              then [\<lparr>label_name = SUB_SUITE, label_value = last ?segs\<rparr>]
              else [])\<rparr>"
  proof (cases xs rule: rev_cases)
    case Nil
    then show ?thesis
      unfolding addSuiteLabelsToTestCase_def Let_def segs
      by (simp add: addLabel_def)
  next
    case (snoc ys y)
    then show ?thesis
      unfolding addSuiteLabelsToTestCase_def Let_def segs
      by (cases ys) (simp_all add: addLabel_def)
  qed
  then show "let segs = ?segs
    in addSuiteLabelsToTestCase p t testPath
       = t\<lparr>result_labels :=
             result_labels t
             @ (if hd segs = [] then []
                else [\<lparr>label_name = PARENT_SUITE, label_value = hd segs\<rparr>,
                      \<lparr>label_name = PACKAGE, label_value = hd segs\<rparr>])
             @ (if 3 \<le> length segs
                then [\<lparr>label_name = SUITE,
                       label_value = str_join '' > '' (map Some (butlast (tl segs)))\<rparr>]
                else [])
             @ (if 2 \<le> length segs \<and> last segs \<noteq> []
                then [\<lparr>label_name = SUB_SUITE, label_value = last segs\<rparr>]
                else [])\<rparr>"
    unfolding Let_def .
next
  show "os_type p \<noteq> ''Windows_NT'' \<longrightarrow>
        result_labels (addSuiteLabelsToTestCase p t ''a/b/c.spec.ts'')
          = result_labels t
            @ [\<lparr>label_name = PARENT_SUITE, label_value = ''a''\<rparr>,
               \<lparr>label_name = PACKAGE, label_value = ''a''\<rparr>,
               \<lparr>label_name = SUITE, label_value = ''b''\<rparr>,
               \<lparr>label_name = SUB_SUITE, label_value = ''c.spec.ts''\<rparr>]"
    by (simp add: addSuiteLabelsToTestCase_def Let_def addLabel_def)
qed

theorem suite_labels_from_path_witness:
  "os_type posix \<noteq> ''Windows_NT''
   \<and> result_labels (addSuiteLabelsToTestCase posix (startTest ''u'' ''t'') ''a/b/c.spec.ts'')
       = [\<lparr>label_name = PARENT_SUITE, label_value = ''a''\<rparr>,
          \<lparr>label_name = PACKAGE, label_value = ''a''\<rparr>,
          \<lparr>label_name = SUITE, label_value = ''b''\<rparr>,
          \<lparr>label_name = SUB_SUITE, label_value = ''c.spec.ts''\<rparr>]"
proof -
  have w: "os_type posix \<noteq> ''Windows_NT''"
    by (simp add: posix_def)
  from suite_labels_from_path [where p = posix and t = "startTest ''u'' ''t''"] w
  have "result_labels (addSuiteLabelsToTestCase posix (startTest ''u'' ''t'') ''a/b/c.spec.ts'')
          = result_labels (startTest ''u'' ''t'')
            @ [\<lparr>label_name = PARENT_SUITE, label_value = ''a''\<rparr>,
               \<lparr>label_name = PACKAGE, label_value = ''a''\<rparr>,
               \<lparr>label_name = SUITE, label_value = ''b''\<rparr>,
               \<lparr>label_name = SUB_SUITE, label_value = ''c.spec.ts''\<rparr>]"
    by blast
  with w show ?thesis
    by (simp add: startTest_def)
qed

text \<open>
  The claim as the specification states it fails for a path of one segment: the segment is
  the first and the last, and the test gets no sub-suite label.
\<close>

theorem single_segment_has_no_sub_suite:
  "result_labels (addSuiteLabelsToTestCase posix (startTest ''u'' ''t'') ''c.spec.ts'')
     = [\<lparr>label_name = PARENT_SUITE, label_value = ''c.spec.ts''\<rparr>,
        \<lparr>label_name = PACKAGE, label_value = ''c.spec.ts''\<rparr>]"
  by (simp add: addSuiteLabelsToTestCase_def Let_def addLabel_def posix_def startTest_def)

subsection \<open>Ending a hook twice\<close>

lemma endHook_Inr:
  assumes "endHook e r = Inr r'"
  shows "\<exists>x. currentExecutable r' = Some x \<and> stage x = FINISHED"
  using assms
  by (auto simp: endHook_def split: option.splits if_splits sum.splits)

lemma classify_no_InvalidState: "classify e \<noteq> Inl (InvalidState m)"
  by (simp add: classify_def split: option.splits MatcherMessage.splits)

lemma tidy_no_InvalidState: "tidy e c \<noteq> Inl (InvalidState m)"
  by (simp add: tidy_def Let_def split: option.splits JsValue.splits)

lemma handleError_no_InvalidState: "handleError e \<noteq> Inl (InvalidState m)"
  using classify_no_InvalidState tidy_no_InvalidState
  by (auto simp: handleError_def Let_def split: sum.splits)

text \<open>
  C10. After a \<open>startHook\<close> and an \<open>endHook\<close> that returned, the reporter still has a
  current executable, resolved and finished. A second \<open>endHook\<close> never throws the error
  of the guard; without an error it overwrites the status with \<open>PASSED\<close>, and with an
  error that \<open>handleError\<close> classifies it overwrites the status and the details with the
  result, the stage being set to \<open>FINISHED\<close> again.
\<close>

theorem endHook_twice:
  assumes "endHook e1 (startHook hookType r) = Inr r2"
  shows "\<exists>x. currentExecutable r2 = Some x \<and> stage x = FINISHED
           \<and> endHook Undefined r2
               = Inr (r2\<lparr>currentExecutable := Some (x\<lparr>status := Some PASSED, stage := FINISHED\<rparr>)\<rparr>)
           \<and> (\<forall>e2 st msg tr. truthy_value e2 \<and> handleError e2 = Inr (st, msg, tr) \<longrightarrow>
                endHook e2 r2
                  = Inr (r2\<lparr>currentExecutable :=
                             Some (x\<lparr>status := Some st,
                                     statusDetails := \<lparr>message = Some msg, trace = Some tr\<rparr>,
                                     stage := FINISHED\<rparr>)\<rparr>))
           \<and> (\<forall>e2 m s. endHook e2 r2 \<noteq> Inl (InvalidState m, s))"
proof -
  from endHook_Inr [OF assms] obtain x where
    x: "currentExecutable r2 = Some x" "stage x = FINISHED"
    by blast
  have a: "endHook Undefined r2
      = Inr (r2\<lparr>currentExecutable := Some (x\<lparr>status := Some PASSED, stage := FINISHED\<rparr>)\<rparr>)"
    using x by (simp add: endHook_def)
  have b: "endHook e2 r2
      = Inr (r2\<lparr>currentExecutable :=
                 Some (x\<lparr>status := Some st,
                         statusDetails := \<lparr>message = Some msg, trace = Some tr\<rparr>,
                         stage := FINISHED\<rparr>)\<rparr>)"
    if "truthy_value e2" "handleError e2 = Inr (st, msg, tr)" for e2 st msg tr
    using x that by (simp add: endHook_def)
  have c: "endHook e2 r2 \<noteq> Inl (InvalidState m, s)" for e2 m s
    using x handleError_no_InvalidState [of e2 m]
    by (auto simp: endHook_def split: sum.splits)
  from x a b c show ?thesis by blast
qed

theorem endHook_twice_witness:
  "endHook Undefined (startHook ''beforeEach'' one_suite)
     = Inr (one_suite\<lparr>currentExecutable :=
                        Some (fixtureResult\<lparr>status := Some PASSED, stage := FINISHED\<rparr>)\<rparr>)
   \<and> \<not> isl (endHook (Str ''late failure'')
         (one_suite\<lparr>currentExecutable :=
                      Some (fixtureResult\<lparr>status := Some PASSED, stage := FINISHED\<rparr>)\<rparr>))
   \<and> map_option status (currentExecutable (projr (endHook (Str ''late failure'')
         (one_suite\<lparr>currentExecutable :=
                      Some (fixtureResult\<lparr>status := Some PASSED, stage := FINISHED\<rparr>)\<rparr>))))
     = Some (Some BROKEN)"
proof -
  let ?r2 = "one_suite\<lparr>currentExecutable :=
                         Some (fixtureResult\<lparr>status := Some PASSED, stage := FINISHED\<rparr>)\<rparr>"
  have first: "endHook Undefined (startHook ''beforeEach'' one_suite) = Inr ?r2"
    by (simp add: endHook_def startHook_def one_suite_eq currentSuite_def Let_def)
  have cls: "truthy_value (Str ''late failure'')
     \<and> handleError (Str ''late failure'')
         = Inr (BROKEN, replaceANSITags ''Error. Expand for more details.'',
                replaceANSITags ''late failure'')"
    by (simp add: handleError_def classify_def tidy_def or_else_def Let_def)
  from endHook_twice [OF first] obtain x where
    x: "currentExecutable ?r2 = Some x"
    and ov: "\<forall>e2 st msg tr. truthy_value e2 \<and> handleError e2 = Inr (st, msg, tr) \<longrightarrow>
                endHook e2 ?r2
                  = Inr (?r2\<lparr>currentExecutable :=
                             Some (x\<lparr>status := Some st,
                                     statusDetails := \<lparr>message = Some msg, trace = Some tr\<rparr>,
                                     stage := FINISHED\<rparr>)\<rparr>)"
    by blast
  from ov cls have "endHook (Str ''late failure'') ?r2
      = Inr (?r2\<lparr>currentExecutable :=
                 Some (x\<lparr>status := Some BROKEN,
                         statusDetails :=
                           \<lparr>message = Some (replaceANSITags ''Error. Expand for more details.''),
                            trace = Some (replaceANSITags ''late failure'')\<rparr>,
                         stage := FINISHED\<rparr>)\<rparr>)"
    by blast
  with first show ?thesis by simp
qed

end
